theory Spec2Isabelle
  imports Main "HOL-Library.Sublist"
begin

section \<open>pastryjs: cookie strings on the client and on the server\<close>

text \<open>
  The module has one source file with two peer entry points: \<open>_web\<close>, which returns the
  helpers \<open>set\<close>, \<open>get\<close>, \<open>delete\<close>, \<open>update\<close>, \<open>keys\<close> and \<open>values\<close> over
  \<open>document.cookie\<close>, and \<open>_server\<close>, which only builds the cookie string. An
  identifier cannot start with an underscore here, so \<open>_server\<close> is \<open>server\<close> and the
  helper \<open>_set\<close> of \<open>_web\<close> is \<open>web_set\<close>, and so on for the other five.

  A JavaScript string is a sequence of UTF-16 code units. The model's \<open>string\<close> is a list of
  \<open>char\<close>, which has 256 values: it stands for the strings whose code units are all below
  256 (U+0000 to U+00FF), which covers every printable ASCII string.
\<close>

subsection \<open>The string methods the source calls\<close>

text \<open>
  \<open>String.prototype.trim\<close> removes white space and line terminators from both ends. Below
  U+0100 these are tab, line feed, vertical tab, form feed, carriage return, space and the
  no-break space U+00A0.
\<close>

definition isWhiteSpace :: "char \<Rightarrow> bool" where
  "isWhiteSpace c = (of_char c \<in> {9, 10, 11, 12, 13, 32, 160 :: nat})"

definition trim :: "string \<Rightarrow> string" where
  "trim s = rev (dropWhile isWhiteSpace (rev (dropWhile isWhiteSpace s)))"

text \<open>
  \<open>s.split(sep)\<close> for a separator of one character: the pieces between the separators, one
  more than there are separators, so that the empty string gives one empty piece.
\<close>

fun split :: "char \<Rightarrow> string \<Rightarrow> string list" where
  "split sep [] = [[]]"
| "split sep (c # cs) =
     (if c = sep then [] # split sep cs
      else (case split sep cs of
              [] \<Rightarrow> [[c]]
            | piece # pieces \<Rightarrow> (c # piece) # pieces))"

definition startsWith :: "string \<Rightarrow> string \<Rightarrow> bool" where
  "startsWith s p = prefix p s"

definition includes_str :: "string \<Rightarrow> string \<Rightarrow> bool" where
  "includes_str s t = sublist t s"

text \<open>
  \<open>s.replace(pat, rep)\<close> for a string pattern: the first occurrence of \<open>pat\<close> is replaced,
  and \<open>s\<close> is returned as it is when there is none. The source only calls it with the
  replacement \<open>""\<close>, where the replacement patterns (\<open>$&\<close> and the like) play no part.
\<close>

fun replace :: "string \<Rightarrow> string \<Rightarrow> string \<Rightarrow> string" where
  "replace pat rep [] = (if pat = [] then rep else [])"
| "replace pat rep (c # cs) =
     (if prefix pat (c # cs) then rep @ drop (length pat) (c # cs)
      else c # replace pat rep cs)"

text \<open>
  Truthiness of a \<open>string | null\<close> value and of an optional string: \<open>null\<close>, \<open>undefined\<close>
  and the empty string are falsy.
\<close>

definition truthy :: "string option \<Rightarrow> bool" where
  "truthy v = (case v of None \<Rightarrow> False | Some s \<Rightarrow> s \<noteq> [])"

subsection \<open>The runtime's URI component functions\<close>

text \<open>
  \<open>encodeURIComponent\<close> keeps the unescaped characters of ECMAScript (letters, decimal
  digits and the marks \<open>- _ . ! ~ * ' ( )\<close>) and writes every other code point as the octets
  of its UTF-8 form, each as \<open>%\<close> and two upper-case hexadecimal digits. A code point
  below 128 is one octet, one from 128 to 255 is two. The function throws only on a lone
  surrogate, which is not a code unit of the model, so it is total here.
\<close>

definition uriAlpha :: "char \<Rightarrow> bool" where
  "uriAlpha c = (let n = of_char c :: nat in (65 \<le> n \<and> n \<le> 90) \<or> (97 \<le> n \<and> n \<le> 122))"

definition decimalDigit :: "char \<Rightarrow> bool" where
  "decimalDigit c = (let n = of_char c :: nat in 48 \<le> n \<and> n \<le> 57)"

definition uriMark :: "char \<Rightarrow> bool" where
  "uriMark c = (c \<in> set ''-_.!~*()'' \<or> c = CHR 0x27)"

definition uriUnescaped :: "char \<Rightarrow> bool" where
  "uriUnescaped c = (uriAlpha c \<or> decimalDigit c \<or> uriMark c)"

definition hexDigit :: "nat \<Rightarrow> char" where
  "hexDigit n = char_of (if n < 10 then 48 + n else 55 + n)"

definition percentOctet :: "nat \<Rightarrow> string" where
  "percentOctet b = [CHR ''%'', hexDigit (b div 16), hexDigit (b mod 16)]"

definition encodeCodeUnit :: "char \<Rightarrow> string" where
  "encodeCodeUnit c =
     (if uriUnescaped c then [c]
      else (let cp = of_char c :: nat in
            if cp < 128 then percentOctet cp
            else percentOctet (192 + cp div 64) @ percentOctet (128 + cp mod 64)))"

definition encodeURIComponent :: "string \<Rightarrow> string" where
  "encodeURIComponent s = concat (map encodeCodeUnit s)"

text \<open>
  \<open>decodeURIComponent\<close> copies every character but \<open>%\<close>; a \<open>%\<close> must be followed by two
  hexadecimal digits (of either case), which give an octet. An octet below 128 is that
  character. An octet \<open>110xxxxx\<close> starts a sequence of two and must be followed by an
  escaped octet \<open>10xxxxxx\<close>; the code point of the two is refused when it is below 128 (an
  overlong form). \<open>None\<close> is the \<open>URIError\<close> the runtime throws, and also the answer for a
  well-formed sequence whose code point is 256 or more, which the model's strings cannot
  hold.
\<close>

definition hexValue :: "char \<Rightarrow> nat option" where
  "hexValue c =
     (let n = of_char c :: nat in
      if 48 \<le> n \<and> n \<le> 57 then Some (n - 48)
      else if 65 \<le> n \<and> n \<le> 70 then Some (n - 55)
      else if 97 \<le> n \<and> n \<le> 102 then Some (n - 87)
      else None)"

definition octetValue :: "char \<Rightarrow> char \<Rightarrow> nat option" where
  "octetValue h l =
     (case hexValue h of
        None \<Rightarrow> None
      | Some a \<Rightarrow> (case hexValue l of None \<Rightarrow> None | Some b \<Rightarrow> Some (16 * a + b)))"

fun decodeURIComponent :: "string \<Rightarrow> string option" where
  "decodeURIComponent [] = Some []"
| "decodeURIComponent (c # cs) =
     (if c \<noteq> CHR ''%'' then map_option (Cons c) (decodeURIComponent cs)
      else (case cs of
              h # l # rest \<Rightarrow>
                (case octetValue h l of
                   None \<Rightarrow> None
                 | Some b \<Rightarrow>
                     if b < 128 then map_option (Cons (char_of b)) (decodeURIComponent rest)
                     else if b div 32 = 6 then
                       (case rest of
                          p # h2 # l2 # rest2 \<Rightarrow>
                            (if p \<noteq> CHR ''%'' then None
                             else (case octetValue h2 l2 of
                                     None \<Rightarrow> None
                                   | Some b2 \<Rightarrow>
                                       if b2 div 64 \<noteq> 2 then None
                                       else (let cp = (b mod 32) * 64 + b2 mod 64 in
                                             if cp < 128 \<or> 256 \<le> cp then None
                                             else map_option (Cons (char_of cp))
                                                    (decodeURIComponent rest2))))
                        | _ \<Rightarrow> None)
                     else None)
            | _ \<Rightarrow> None))"

subsection \<open>Cookie options\<close>

text \<open>
  \<open>SetWebCookieOptions\<close> and \<open>SetServerCookieOptions\<close> declare the same eight optional
  fields with the same types, so one record serves both; \<open>None\<close> is a field that is left
  out. The code reads the fields by name (a destructuring assignment), so the order in
  which a caller wrote them is not part of the value.

  The only thing the code does with a \<open>Date\<close> is to call \<open>toUTCString\<close> on it, which does
  not throw (an invalid date gives the text \<open>Invalid Date\<close>): a date is modelled by that
  text.

  \<open>maxAge\<close> is a JavaScript number, a double. The code does two things with it: it
  tests its truthiness, and it writes it into a template literal. Zero (of either sign)
  and \<open>NaN\<close> are the falsy numbers, and the runtime prints them as \<open>0\<close> and \<open>NaN\<close>.
  Every other number (an integer, a fraction, an infinity) is truthy, and is modelled
  by the text that the runtime prints for it, which is neither \<open>0\<close> nor \<open>NaN\<close>.
\<close>

datatype Date = Date (toUTCString: string)

datatype Number = NumberZero | NumberNaN | NumberText string

fun numberTruthy :: "Number \<Rightarrow> bool" where
  "numberTruthy NumberZero = False"
| "numberTruthy NumberNaN = False"
| "numberTruthy (NumberText t) = True"

fun numberToString :: "Number \<Rightarrow> string" where
  "numberToString NumberZero = ''0''"
| "numberToString NumberNaN = ''NaN''"
| "numberToString (NumberText t) = t"

datatype SameSite = Lax | Strict | NoneSite

fun sameSiteText :: "SameSite \<Rightarrow> string" where
  "sameSiteText Lax = ''Lax''"
| "sameSiteText Strict = ''Strict''"
| "sameSiteText NoneSite = ''None''"

record CookieOptions =
  domain :: "string option"
  expiry :: "Date option"
  maxAge :: "Number option"
  partitioned :: "bool option"
  path :: "string option"
  sameSite :: "SameSite option"
  secure :: "bool option"
  httpOnly :: "bool option"

definition noOptions :: CookieOptions where
  "noOptions = \<lparr>domain = None, expiry = None, maxAge = None, partitioned = None,
                path = None, sameSite = None, secure = None, httpOnly = None\<rparr>"

subsection \<open>The server formatter\<close>

text \<open>
  \<open>_server\<close>: the base \<open>key=encodeURIComponent(value)\<close>, then, when an options object was
  passed, one \<open>if (field) cookieValue += ...\<close> per field, in the order of the source. Each
  test is JavaScript truthiness: a string is truthy when it is not empty, a number when it
  is not zero, a boolean when it is \<open>true\<close>, a \<open>Date\<close> object and a \<open>sameSite\<close> text
  always, and a field that is left out never.
\<close>

definition server :: "string \<Rightarrow> string \<Rightarrow> CookieOptions option \<Rightarrow> string" where
  "server key val options =
     (let cookieValue = key @ ''='' @ encodeURIComponent val in
      case options of
        None \<Rightarrow> cookieValue
      | Some opts \<Rightarrow>
          (let cookieValue = (case domain opts of
                                Some d \<Rightarrow> if d \<noteq> [] then cookieValue @ ''; Domain='' @ d
                                          else cookieValue
                              | None \<Rightarrow> cookieValue);
               cookieValue = (case expiry opts of
                                Some e \<Rightarrow> cookieValue @ ''; Expires='' @ toUTCString e
                              | None \<Rightarrow> cookieValue);
               cookieValue = (case maxAge opts of
                                Some m \<Rightarrow> if numberTruthy m
                                          then cookieValue @ ''; Max-Age='' @ numberToString m
                                          else cookieValue
                              | None \<Rightarrow> cookieValue);
               cookieValue = (if partitioned opts = Some True
                              then cookieValue @ ''; Partitioned'' else cookieValue);
               cookieValue = (case path opts of
                                Some p \<Rightarrow> if p \<noteq> [] then cookieValue @ ''; Path='' @ p
                                          else cookieValue
                              | None \<Rightarrow> cookieValue);
               cookieValue = (case sameSite opts of
                                Some s \<Rightarrow> cookieValue @ ''; SameSite='' @ sameSiteText s
                              | None \<Rightarrow> cookieValue);
               cookieValue = (if secure opts = Some True
                              then cookieValue @ ''; Secure'' else cookieValue);
               cookieValue = (if httpOnly opts = Some True
                              then cookieValue @ ''; HttpOnly'' else cookieValue)
           in cookieValue))"

subsection \<open>The ambient cookie jar\<close>

text \<open>
  \<open>document.cookie\<close> belongs to the browser, not to this module: reading it gives the
  combined cookie line, assigning to it hands one cookie string to the browser, which
  stores, replaces or drops a cookie as it sees fit. The jar is therefore a parameter: a
  state of any type \<open>'j\<close> with a getter and a setter, about which nothing is assumed.
  The global \<open>document\<close> is \<open>Some\<close> jar state, or \<open>None\<close> when the binding is falsy
  (the \<open>else\<close> branch of every \<open>if (document)\<close> in the source). An environment that
  does not declare \<open>document\<close> at all is not modelled.
\<close>

record 'j CookieJar =
  getter :: "'j \<Rightarrow> string"
  setter :: "string \<Rightarrow> 'j \<Rightarrow> 'j"

text \<open>
  A jar to run the helpers on: the state is the cookie line itself, and a write appends the
  \<open>key=value\<close> part of the cookie string (what stands before its first \<open>;\<close>) to the line,
  so that every write shows in the state.
\<close>

definition lineJar :: "string CookieJar" where
  "lineJar = \<lparr>getter = (\<lambda>line. line),
              setter = (\<lambda>raw line. if line = [] then takeWhile (\<lambda>c. c \<noteq> CHR '';'') raw
                                     else line @ ''; '' @ takeWhile (\<lambda>c. c \<noteq> CHR '';'') raw)\<rparr>"

subsection \<open>The client helpers\<close>

text \<open>
  \<open>_set\<close> builds its cookie string with its own copy of the statements of \<open>_server\<close>
  (lines 248 to 270 of the source); \<open>set_cookieValue\<close> is that copy.
\<close>

definition set_cookieValue :: "string \<Rightarrow> string \<Rightarrow> CookieOptions option \<Rightarrow> string" where
  "set_cookieValue key val options =
     (let cookieValue = key @ ''='' @ encodeURIComponent val in
      case options of
        None \<Rightarrow> cookieValue
      | Some opts \<Rightarrow>
          (let cookieValue = (case domain opts of
                                Some d \<Rightarrow> if d \<noteq> [] then cookieValue @ ''; Domain='' @ d
                                          else cookieValue
                              | None \<Rightarrow> cookieValue);
               cookieValue = (case expiry opts of
                                Some e \<Rightarrow> cookieValue @ ''; Expires='' @ toUTCString e
                              | None \<Rightarrow> cookieValue);
               cookieValue = (case maxAge opts of
                                Some m \<Rightarrow> if numberTruthy m
                                          then cookieValue @ ''; Max-Age='' @ numberToString m
                                          else cookieValue
                              | None \<Rightarrow> cookieValue);
               cookieValue = (if partitioned opts = Some True
                              then cookieValue @ ''; Partitioned'' else cookieValue);
               cookieValue = (case path opts of
                                Some p \<Rightarrow> if p \<noteq> [] then cookieValue @ ''; Path='' @ p
                                          else cookieValue
                              | None \<Rightarrow> cookieValue);
               cookieValue = (case sameSite opts of
                                Some s \<Rightarrow> cookieValue @ ''; SameSite='' @ sameSiteText s
                              | None \<Rightarrow> cookieValue);
               cookieValue = (if secure opts = Some True
                              then cookieValue @ ''; Secure'' else cookieValue);
               cookieValue = (if httpOnly opts = Some True
                              then cookieValue @ ''; HttpOnly'' else cookieValue)
           in cookieValue))"

text \<open>
  \<open>_set\<close> returns a boolean and may have written to the jar: the model returns the
  boolean and the document after the call.
\<close>

definition web_set ::
  "'j CookieJar \<Rightarrow> 'j option \<Rightarrow> string \<Rightarrow> string \<Rightarrow> CookieOptions option \<Rightarrow> bool \<times> 'j option" where
  "web_set J document key val options =
     (let cookieValue = set_cookieValue key val options in
      case document of
        None \<Rightarrow> (False, None)
      | Some j \<Rightarrow>
          (let j' = setter J cookieValue j in
           (includes_str (getter J j') (key @ ''='' @ encodeURIComponent val), Some j')))"

text \<open>
  \<open>_get\<close>: the callback given to \<open>some\<close> has no \<open>return\<close>, so it answers \<open>undefined\<close>
  for every segment and \<open>some\<close> visits them all, from left to right; each segment whose
  trimmed text starts with \<open>key=\<close> assigns \<open>returnValue\<close> again. The assigned text is
  \<open>cookie.replace(key=, "")\<close> on the segment as \<open>split\<close> gave it, not on the trimmed one.
\<close>

definition web_get :: "'j CookieJar \<Rightarrow> 'j option \<Rightarrow> string \<Rightarrow> string option" where
  "web_get J document key =
     (case document of
        None \<Rightarrow> None
      | Some j \<Rightarrow>
          foldl (\<lambda>returnValue cookie.
                   if startsWith (trim cookie) (key @ ''='')
                   then Some (replace (key @ ''='') [] cookie)
                   else returnValue)
                None (split CHR '';'' (getter J j)))"

text \<open>
  \<open>_delete\<close> and \<open>_update\<close> switch on \<open>!keyExists\<close>, the negated truthiness of what
  \<open>_get\<close> returned. The options of the deleting \<open>_set\<close> are the literal
  \<open>{ maxAge: 0, secure: false, path: "/" }\<close>.
\<close>

definition deleteOptions :: CookieOptions where
  "deleteOptions = \<lparr>domain = None, expiry = None, maxAge = Some NumberZero, partitioned = None,
                    path = Some ''/'', sameSite = None, secure = Some False, httpOnly = None\<rparr>"

definition web_delete :: "'j CookieJar \<Rightarrow> 'j option \<Rightarrow> string \<Rightarrow> bool \<times> 'j option" where
  "web_delete J document key =
     (let keyExists = web_get J document key in
      if \<not> truthy keyExists then (False, document)
      else web_set J document key [] (Some deleteOptions))"

definition web_update ::
  "'j CookieJar \<Rightarrow> 'j option \<Rightarrow> string \<Rightarrow> string \<Rightarrow> CookieOptions option \<Rightarrow> bool \<times> 'j option" where
  "web_update J document key val options =
     (let keyExists = web_get J document key in
      if \<not> truthy keyExists then (False, document)
      else web_set J document key val options)"

text \<open>
  \<open>_keys\<close> and \<open>_values\<close> push \<open>cookie.split("=")[i].trim()\<close> for every segment, in
  order. Indexing an array beyond its end gives \<open>undefined\<close>, and calling \<open>trim\<close> on
  \<open>undefined\<close> throws a \<open>TypeError\<close>, which ends the call.
\<close>

datatype error = TypeError

definition trimAt :: "string list \<Rightarrow> nat \<Rightarrow> error + string" where
  "trimAt parts i = (if i < length parts then Inr (trim (parts ! i)) else Inl TypeError)"

fun pushEach :: "(string \<Rightarrow> error + string) \<Rightarrow> string list \<Rightarrow> string list \<Rightarrow> error + string list" where
  "pushEach f acc [] = Inr acc"
| "pushEach f acc (cookie # cookies) =
     (case f cookie of
        Inl e \<Rightarrow> Inl e
      | Inr x \<Rightarrow> pushEach f (acc @ [x]) cookies)"

definition web_keys :: "'j CookieJar \<Rightarrow> 'j option \<Rightarrow> error + string list option" where
  "web_keys J document =
     (case document of
        None \<Rightarrow> Inr None
      | Some j \<Rightarrow>
          if length (getter J j) = 0 then Inr None
          else (let cookies = split CHR '';'' (getter J j) in
                case pushEach (\<lambda>cookie. trimAt (split CHR ''='' cookie) 0) [] cookies of
                  Inl e \<Rightarrow> Inl e
                | Inr cookieKeys \<Rightarrow>
                    Inr (if length cookieKeys = 0 then None else Some cookieKeys)))"

definition web_values :: "'j CookieJar \<Rightarrow> 'j option \<Rightarrow> error + string list option" where
  "web_values J document =
     (case document of
        None \<Rightarrow> Inr None
      | Some j \<Rightarrow>
          if length (getter J j) = 0 then Inr None
          else (let cookies = split CHR '';'' (getter J j) in
                case pushEach (\<lambda>cookie. trimAt (split CHR ''='' cookie) 1) [] cookies of
                  Inl e \<Rightarrow> Inl e
                | Inr cookieValues \<Rightarrow>
                    Inr (if length cookieValues = 0 then None else Some cookieValues)))"

section \<open>Properties\<close>

subsection \<open>Encoding and decoding\<close>

lemma of_char_lt_256: "(of_char c :: nat) < 256"
proof -
  have "(of_char (char_of (of_char c :: nat)) :: nat) = of_char c mod 256"
    by (rule of_char_of)
  then have "(of_char c :: nat) = of_char c mod 256" by simp
  then show ?thesis
    by (metis mod_less_divisor zero_less_numeral)
qed

lemma hexValue_hexDigit: "n < 16 \<Longrightarrow> hexValue (hexDigit n) = Some n"
  by (simp add: hexValue_def hexDigit_def Let_def)

lemma octetValue_hexDigits:
  assumes "b < 256"
  shows "octetValue (hexDigit (b div 16)) (hexDigit (b mod 16)) = Some b"
proof -
  from assms have "b div 16 < 16" by simp
  then have h: "hexValue (hexDigit (b div 16)) = Some (b div 16)"
    by (rule hexValue_hexDigit)
  have l: "hexValue (hexDigit (b mod 16)) = Some (b mod 16)"
    by (rule hexValue_hexDigit) simp
  show ?thesis by (simp add: octetValue_def h l)
qed

lemma percent_escaped: "\<not> uriUnescaped CHR ''%''"
  by (simp add: uriUnescaped_def uriAlpha_def decimalDigit_def uriMark_def)

lemma decode_one_octet:
  assumes "b < 128"
  shows "decodeURIComponent (percentOctet b @ rest) = map_option (Cons (char_of b)) (decodeURIComponent rest)"
proof -
  from assms have "octetValue (hexDigit (b div 16)) (hexDigit (b mod 16)) = Some b"
    by (intro octetValue_hexDigits) simp
  with assms show ?thesis by (simp add: percentOctet_def)
qed

lemma decode_two_octets:
  assumes "128 \<le> cp" "cp < 256"
  shows "decodeURIComponent (percentOctet (192 + cp div 64) @ percentOctet (128 + cp mod 64) @ rest)
         = map_option (Cons (char_of cp)) (decodeURIComponent rest)"
proof -
  let ?b = "192 + cp div 64" and ?b2 = "128 + cp mod 64"
  from assms have "cp div 64 < 4" "2 \<le> cp div 64" by simp_all
  then have d: "cp div 64 = 2 \<or> cp div 64 = 3" by linarith
  have b: "?b < 256" "\<not> ?b < 128" "?b div 32 = 6" "?b mod 32 = cp div 64"
    using d by auto
  have m: "cp mod 64 < 64" by simp
  have b2: "?b2 < 256" "?b2 div 64 = 2" "?b2 mod 64 = cp mod 64"
    using m by (simp_all add: mod_add_left_eq[symmetric] flip: mod_add_eq)
  have o1: "octetValue (hexDigit (?b div 16)) (hexDigit (?b mod 16)) = Some ?b"
    using b(1) by (rule octetValue_hexDigits)
  have o2: "octetValue (hexDigit (?b2 div 16)) (hexDigit (?b2 mod 16)) = Some ?b2"
    using b2(1) by (rule octetValue_hexDigits)
  have cp: "cp div 64 * 64 + cp mod 64 = cp" by simp
  show ?thesis
    using assms b(2,3,4) b2(2,3) cp
    by (simp add: percentOctet_def o1 o2 Let_def del: div_mult_mod_eq)
qed

lemma decode_encodeCodeUnit:
  "decodeURIComponent (encodeCodeUnit c @ rest) = map_option (Cons c) (decodeURIComponent rest)"
proof (cases "uriUnescaped c")
  case True
  then have "c \<noteq> CHR ''%''" using percent_escaped by auto
  with True show ?thesis by (simp add: encodeCodeUnit_def)
next
  case False
  show ?thesis
  proof (cases "(of_char c :: nat) < 128")
    case True
    with False show ?thesis
      by (simp add: encodeCodeUnit_def Let_def decode_one_octet)
  next
    case high: False
    have "(of_char c :: nat) < 256" by (rule of_char_lt_256)
    with high False show ?thesis
      by (simp add: encodeCodeUnit_def Let_def decode_two_octets)
  qed
qed

lemma decode_encode: "decodeURIComponent (encodeURIComponent s) = Some s"
proof (induction s)
  case Nil
  show ?case by (simp add: encodeURIComponent_def)
next
  case (Cons c s)
  have "encodeURIComponent (c # s) = encodeCodeUnit c @ encodeURIComponent s"
    by (simp add: encodeURIComponent_def)
  with Cons show ?case by (simp add: decode_encodeCodeUnit)
qed

subsection \<open>The serializer\<close>


lemma server_all_attributes_in_order:
  assumes "d \<noteq> []" and "p \<noteq> []"
  shows "server key val
           (Some \<lparr>domain = Some d, expiry = Some e, maxAge = Some (NumberText t),
                  partitioned = Some True, path = Some p, sameSite = Some s,
                  secure = Some True, httpOnly = Some True\<rparr>) =
         key @ ''='' @ encodeURIComponent val @ ''; Domain='' @ d
           @ ''; Expires='' @ toUTCString e @ ''; Max-Age='' @ t @ ''; Partitioned''
           @ ''; Path='' @ p @ ''; SameSite='' @ sameSiteText s @ ''; Secure'' @ ''; HttpOnly''"
  using assms by (simp add: server_def)



lemma maxAge_zero_like_absent:
  "maxAge opts = Some NumberZero \<Longrightarrow>
     server key val (Some opts) = server key val (Some (opts\<lparr>maxAge := None\<rparr>))"
  by (simp add: server_def)

subsection \<open>Splitting, pushing and the jar queries\<close>

lemma split_not_Nil: "split sep s \<noteq> []"
  by (induction s) (auto split: list.split)

lemma length_split: "length (split sep s) = Suc (count_list s sep)"
proof (induction s)
  case Nil
  show ?case by simp
next
  case (Cons c cs)
  then show ?case using split_not_Nil [of sep cs]
    by (cases "split sep cs") auto
qed

lemma split_second_piece: "1 < length (split sep s) \<longleftrightarrow> sep \<in> set s"
  using count_list_0_iff [of s sep] by (auto simp: length_split)

lemma split_first_piece: "split sep s ! 0 = takeWhile (\<lambda>c. c \<noteq> sep) s"
proof (induction s)
  case Nil
  show ?case by simp
next
  case (Cons c cs)
  then show ?case using split_not_Nil [of sep cs]
    by (cases "split sep cs") auto
qed

lemma trimAt_first: "trimAt (split sep s) 0 = Inr (trim (takeWhile (\<lambda>c. c \<noteq> sep) s))"
  using split_not_Nil [of sep s] by (simp add: trimAt_def split_first_piece)

lemma trimAt_second: "(trimAt (split sep s) (Suc 0) = Inl TypeError) \<longleftrightarrow> sep \<notin> set s"
  using split_second_piece [of sep s] by (auto simp: trimAt_def)

lemma pushEach_all_Inr:
  "(\<And>x. x \<in> set xs \<Longrightarrow> f x = Inr (g x)) \<Longrightarrow> pushEach f acc xs = Inr (acc @ map g xs)"
  by (induction xs arbitrary: acc) auto

lemma pushEach_some_Inl:
  "x \<in> set xs \<Longrightarrow> f x = Inl TypeError \<Longrightarrow> pushEach f acc xs = Inl TypeError"
proof (induction xs arbitrary: acc)
  case Nil
  then show ?case by simp
next
  case (Cons y ys)
  show ?case
  proof (cases "f y")
    case (Inl e)
    then show ?thesis by (cases e) simp
  next
    case (Inr v)
    with Cons show ?thesis by auto
  qed
qed

lemma pushEach_length:
  "pushEach f acc xs = Inr ys \<Longrightarrow> length ys = length acc + length xs"
  by (induction xs arbitrary: acc) (auto split: sum.splits)

lemma pushEach_Inl_iff:
  "pushEach f acc xs = Inl TypeError \<longleftrightarrow> (\<exists>x \<in> set xs. f x = Inl TypeError)"
proof (induction xs arbitrary: acc)
  case Nil
  show ?case by simp
next
  case (Cons y ys)
  show ?case
  proof (cases "f y")
    case (Inl e)
    then show ?thesis by (cases e) auto
  next
    case (Inr v)
    with Cons show ?thesis by auto
  qed
qed

lemma web_keys_value:
  assumes "getter J j \<noteq> []"
  shows "web_keys J (Some j) =
           Inr (Some (map (\<lambda>cookie. trim (takeWhile (\<lambda>c. c \<noteq> CHR ''='') cookie))
                          (split CHR '';'' (getter J j))))"
proof -
  let ?segs = "split CHR '';'' (getter J j)"
  have "pushEach (\<lambda>cookie. trimAt (split CHR ''='' cookie) 0) [] ?segs =
          Inr ([] @ map (\<lambda>cookie. trim (takeWhile (\<lambda>c. c \<noteq> CHR ''='') cookie)) ?segs)"
    by (rule pushEach_all_Inr) (rule trimAt_first)
  with assms split_not_Nil [of "CHR '';''" "getter J j"] show ?thesis
    by (simp add: web_keys_def Let_def)
qed

lemma web_values_TypeError:
  assumes "getter J j \<noteq> []"
  shows "web_values J (Some j) = Inl TypeError \<longleftrightarrow>
           (\<exists>seg \<in> set (split CHR '';'' (getter J j)). CHR ''='' \<notin> set seg)"
proof -
  have "web_values J (Some j) = Inl TypeError \<longleftrightarrow>
          pushEach (\<lambda>cookie. trimAt (split CHR ''='' cookie) 1) [] (split CHR '';'' (getter J j)) = Inl TypeError"
    using assms by (simp add: web_values_def Let_def split: sum.split)
  then show ?thesis by (simp add: pushEach_Inl_iff trimAt_second)
qed

lemma web_keys_not_empty: "web_keys J document \<noteq> Inr (Some [])"
  by (auto simp: web_keys_def Let_def split: option.splits sum.splits)

lemma web_values_not_empty: "web_values J document \<noteq> Inr (Some [])"
  by (auto simp: web_values_def Let_def split: option.splits sum.splits)

lemma web_delete_cases:
  "web_delete J document key =
     (if web_get J document key = None \<or> web_get J document key = Some [] then (False, document)
      else web_set J document key [] (Some deleteOptions))"
  by (auto simp: web_delete_def Let_def truthy_def split: option.splits)

lemma web_update_cases:
  "web_update J document key val options =
     (if web_get J document key = None \<or> web_get J document key = Some [] then (False, document)
      else web_set J document key val options)"
  by (auto simp: web_update_def Let_def truthy_def split: option.splits)

subsection \<open>What get, delete and update compute\<close>

lemma foldl_last_match:
  "foldl (\<lambda>r c. if P c then Some (f c) else r) r0 xs =
     (case filter P xs of [] \<Rightarrow> r0 | m # ms \<Rightarrow> Some (f (last (m # ms))))"
proof (induction xs rule: rev_induct)
  case Nil
  show ?case by simp
next
  case (snoc x xs)
  then show ?case by (auto split: list.splits)
qed

lemma web_get_last_match:
  "web_get J (Some j) key =
     (case filter (\<lambda>cookie. startsWith (trim cookie) (key @ ''='')) (split CHR '';'' (getter J j)) of
        [] \<Rightarrow> None
      | m # ms \<Rightarrow> Some (replace (key @ ''='') [] (last (m # ms))))"
  unfolding web_get_def option.case by (rule foldl_last_match)

lemma web_get_unavailable: "web_get J None key = None"
  by (simp add: web_get_def)

lemma web_get_empty_jar: "getter J j = [] \<Longrightarrow> web_get J (Some j) key = None"
  by (simp add: web_get_def trim_def startsWith_def)

lemma web_get_no_match:
  "web_get J (Some j) key = None \<longleftrightarrow>
     (\<forall>cookie \<in> set (split CHR '';'' (getter J j)). \<not> startsWith (trim cookie) (key @ ''=''))"
proof -
  let ?P = "\<lambda>cookie. startsWith (trim cookie) (key @ ''='')"
  have "web_get J (Some j) key = None \<longleftrightarrow> filter ?P (split CHR '';'' (getter J j)) = []"
    by (simp add: web_get_last_match split: list.split)
  then show ?thesis by (simp add: filter_empty_conv)
qed

section \<open>The claims\<close>

text \<open>
  C1. The claim: serializing with \<open>{maxAge: 0}\<close> gives a string that includes
  \<open>; Max-Age=0\<close>. The source tests \<open>if (maxAge)\<close>, and zero is falsy: for key \<open>k\<close>,
  value \<open>v\<close> and \<open>{maxAge: 0}\<close> both the server formatter and the string built by the
  client's \<open>set\<close> are \<open>k=v\<close>, without the attribute, and the string that \<open>delete\<close>
  makes \<open>set\<close> write for key \<open>k\<close> is \<open>k=; Path=/\<close>.
\<close>

theorem maxAge_zero_is_dropped:
  "server ''k'' ''v'' (Some (noOptions\<lparr>maxAge := Some NumberZero\<rparr>)) = ''k=v''
   \<and> set_cookieValue ''k'' ''v'' (Some (noOptions\<lparr>maxAge := Some NumberZero\<rparr>)) = ''k=v''
   \<and> \<not> includes_str (server ''k'' ''v'' (Some (noOptions\<lparr>maxAge := Some NumberZero\<rparr>))) ''; Max-Age=0''
   \<and> set_cookieValue ''k'' [] (Some deleteOptions) = ''k=; Path=/''"
  by code_simp

text \<open>
  C2. The claim: \<open>get\<close> returns what follows \<open>key=\<close> in the first segment whose trimmed
  form starts with \<open>key=\<close>. The source visits every segment and keeps the last match,
  and removes \<open>key=\<close> from the segment before trimming: on the jar \<open>a=1; b=2\<close> the
  answer for \<open>b\<close> is \<open>2\<close> with the space of the segment in front, and on the jar
  \<open>a=1; a=2\<close> the answer for \<open>a\<close> comes from the second segment.
\<close>

theorem get_takes_last_match_untrimmed:
  "web_get lineJar (Some ''a=1; b=2'') ''b'' = Some '' 2''
   \<and> web_get lineJar (Some ''a=1; a=2'') ''a'' = Some '' 2''"
  by code_simp

text \<open>
  C3. For every key and value, serialization without options is exactly the key, \<open>=\<close>
  and the URI-component encoding of the value, on the server and in the string that the
  client's \<open>set\<close> hands to the jar; the key is copied as it is. Decoding what follows
  the prefix \<open>key=\<close> gives the value back. The value ranges over all strings of the
  model, the printable ones among them.
\<close>

theorem serialize_without_options_roundtrip:
  "server key val None = key @ ''='' @ encodeURIComponent val
   \<and> set_cookieValue key val None = key @ ''='' @ encodeURIComponent val
   \<and> snd (web_set J (Some j) key val None) = Some (setter J (key @ ''='' @ encodeURIComponent val) j)
   \<and> decodeURIComponent (drop (length (key @ ''='')) (server key val None)) = Some val
   \<and> decodeURIComponent (drop (length (key @ ''='')) (set_cookieValue key val None)) = Some val"
proof -
  have s: "server key val None = key @ ''='' @ encodeURIComponent val"
    by (simp add: server_def)
  have c: "set_cookieValue key val None = key @ ''='' @ encodeURIComponent val"
    by (simp add: set_cookieValue_def)
  have w: "snd (web_set J (Some j) key val None) = Some (setter J (key @ ''='' @ encodeURIComponent val) j)"
    by (simp add: web_set_def Let_def c)
  have d: "drop (length (key @ ''='')) (key @ ''='' @ encodeURIComponent val) = encodeURIComponent val"
    by simp
  show ?thesis
    by (simp only: s c w d decode_encode simp_thms)
qed

theorem serialize_without_options_roundtrip_witness:
  "server ''sid'' ''a b;c=d'' None = ''sid=a%20b%3Bc%3Dd''
   \<and> decodeURIComponent (drop (length (''sid'' @ ''='')) (server ''sid'' ''a b;c=d'' None))
       = Some ''a b;c=d''"
proof -
  note t = serialize_without_options_roundtrip [of "''sid''" "''a b;c=d''" lineJar "[]"]
  have e: "encodeURIComponent ''a b;c=d'' = ''a%20b%3Bc%3Dd''" by code_simp
  from t have "server ''sid'' ''a b;c=d'' None = ''sid'' @ ''='' @ encodeURIComponent ''a b;c=d''"
    by blast
  then have 1: "server ''sid'' ''a b;c=d'' None = ''sid=a%20b%3Bc%3Dd''"
    by (simp add: e)
  from t have 2: "decodeURIComponent (drop (length (''sid'' @ ''='')) (server ''sid'' ''a b;c=d'' None))
                  = Some ''a b;c=d''"
    by blast
  from 1 2 show ?thesis by blast
qed

text \<open>
  C4. The claim: \<open>delete\<close> returns false without writing when \<open>get\<close> finds no cookie,
  and calls \<open>set(key, "", {maxAge: 0, secure: false, path: "/"})\<close> when the cookie is
  present. On the jar \<open>k=\<close> the cookie \<open>k\<close> is present, \<open>get\<close> returns the empty
  string for it, and \<open>delete\<close> returns false and leaves the jar alone, where the call of
  \<open>set\<close> would have written and returned true.
\<close>

theorem delete_refuses_empty_valued_cookie:
  "web_get lineJar (Some ''k='') ''k'' = Some []
   \<and> web_delete lineJar (Some ''k='') ''k'' = (False, Some ''k='')
   \<and> web_set lineJar (Some ''k='') ''k'' [] (Some deleteOptions) = (True, Some ''k=; k='')"
  by code_simp

text \<open>
  C5. The claim: every attribute that is present in the options is appended to the base,
  in the order Domain, Expires, Max-Age, Partitioned, Path, SameSite, Secure, HttpOnly.
  For key \<open>k\<close>, value \<open>v\<close> and \<open>{domain: "d", maxAge: 0, path: "/p"}\<close> three
  attributes are present, and the claim's string is \<open>k=v; Domain=d; Max-Age=0; Path=/p\<close>.
  The source skips the zero, on the server and in the string of the client's \<open>set\<close>:
  the output is \<open>k=v; Domain=d; Path=/p\<close>, with no Max-Age between Domain and Path.
\<close>

theorem present_maxAge_zero_not_appended:
  "server ''k'' ''v''
     (Some (noOptions\<lparr>domain := Some ''d'', maxAge := Some NumberZero, path := Some ''/p''\<rparr>))
     = ''k=v; Domain=d; Path=/p''
   \<and> set_cookieValue ''k'' ''v''
     (Some (noOptions\<lparr>domain := Some ''d'', maxAge := Some NumberZero, path := Some ''/p''\<rparr>))
     = ''k=v; Domain=d; Path=/p''
   \<and> server ''k'' ''v''
     (Some (noOptions\<lparr>domain := Some ''d'', maxAge := Some NumberZero, path := Some ''/p''\<rparr>))
     \<noteq> ''k=v; Domain=d; Max-Age=0; Path=/p''
   \<and> \<not> includes_str
         (server ''k'' ''v''
            (Some (noOptions\<lparr>domain := Some ''d'', maxAge := Some NumberZero, path := Some ''/p''\<rparr>)))
         ''Max-Age''"
  by code_simp




text \<open>
  C7. For every jar, \<open>keys\<close> and \<open>values\<close> return \<open>null\<close> when the snapshot is the
  empty string and when the document is not available, and neither ever returns an empty
  sequence: a sequence that is returned has at least one element.
\<close>

theorem keys_values_null_never_empty:
  "(getter J j = [] \<longrightarrow> web_keys J (Some j) = Inr None \<and> web_values J (Some j) = Inr None)
   \<and> web_keys J None = Inr None \<and> web_values J None = Inr None
   \<and> web_keys J document \<noteq> Inr (Some []) \<and> web_values J document \<noteq> Inr (Some [])"
  using web_keys_not_empty [of J document] web_values_not_empty [of J document]
  by (simp add: web_keys_def web_values_def)

theorem keys_values_null_never_empty_witness:
  "getter lineJar [] = []
   \<and> web_keys lineJar (Some []) = Inr None \<and> web_values lineJar (Some []) = Inr None
   \<and> web_keys lineJar (Some ''a=1; b=2'') = Inr (Some [''a'', ''b''])
   \<and> web_values lineJar (Some ''a=1; b=2'') = Inr (Some [''1'', ''2''])"
proof -
  have g: "getter lineJar [] = []" by (simp add: lineJar_def)
  have k: "web_keys lineJar (Some ''a=1; b=2'') = Inr (Some [''a'', ''b''])" by code_simp
  have v: "web_values lineJar (Some ''a=1; b=2'') = Inr (Some [''1'', ''2''])" by code_simp
  show ?thesis
    using keys_values_null_never_empty [of lineJar "[]" "Some ''a=1; b=2''"] g k v by simp
qed

text \<open>
  C8. The server formatter and the string construction of the client's \<open>set\<close> are the
  same function, and \<open>set\<close> on an available jar writes exactly the server's string and
  then looks for \<open>key=encodedValue\<close> in what the jar reads back.
\<close>

theorem server_is_the_string_set_writes:
  "server = set_cookieValue
   \<and> web_set J (Some j) key val options =
       (includes_str (getter J (setter J (server key val options) j))
          (key @ ''='' @ encodeURIComponent val),
        Some (setter J (server key val options) j))"
proof -
  have eq: "server = set_cookieValue"
    unfolding server_def set_cookieValue_def by (rule refl)
  show ?thesis
    by (simp add: eq web_set_def Let_def)
qed

theorem server_is_the_string_set_writes_witness:
  "server ''a'' ''1'' (Some deleteOptions) = set_cookieValue ''a'' ''1'' (Some deleteOptions)
   \<and> web_set lineJar (Some ''b=2'') ''a'' ''1'' (Some deleteOptions) = (True, Some ''b=2; a=1'')"
proof -
  have s: "server ''a'' ''1'' (Some deleteOptions) = ''a=1; Path=/''" by code_simp
  have e: "encodeURIComponent ''1'' = ''1''" by code_simp
  have i: "includes_str ''b=2; a=1'' ''a=1''" by code_simp
  show ?thesis
    using server_is_the_string_set_writes [of lineJar "''b=2''" "''a''" "''1''" "Some deleteOptions"]
    by (simp add: s e i lineJar_def)
qed

text \<open>
  C9. The claim: in every jar where the key \<open>k\<close> is present with the empty string as
  its value, \<open>get(k)\<close> returns the empty string, and \<open>delete(k)\<close> and
  \<open>update(k, v, o)\<close> return false without writing. In the jar \<open>a=1; k=\<close> the key \<open>k\<close>
  is present with the empty value (its segment trims to \<open>k=\<close>), but \<open>get\<close> removes
  \<open>k=\<close> from the untrimmed segment and returns one space. That text is truthy, so
  \<open>delete\<close> and \<open>update\<close> call \<open>set\<close>, which writes and returns true.
\<close>

theorem empty_valued_cookie_after_another:
  "'' k='' \<in> set (split CHR '';'' (getter lineJar ''a=1; k=''))
   \<and> trim '' k='' = ''k=''
   \<and> web_get lineJar (Some ''a=1; k='') ''k'' = Some '' ''
   \<and> web_delete lineJar (Some ''a=1; k='') ''k'' = (True, Some ''a=1; k=; k='')
   \<and> web_update lineJar (Some ''a=1; k='') ''k'' ''v'' None = (True, Some ''a=1; k=; k=v'')"
  by code_simp

text \<open>
  C10. For every snapshot that is not empty, \<open>values\<close> ends in a \<open>TypeError\<close> exactly
  when some segment has no \<open>=\<close>, while \<open>keys\<close> returns one key per segment, and the key
  of a segment without \<open>=\<close> is the whole trimmed segment.
\<close>

theorem values_throws_where_keys_returns:
  assumes "getter J j \<noteq> []"
  shows "(web_values J (Some j) = Inl TypeError \<longleftrightarrow>
            (\<exists>seg \<in> set (split CHR '';'' (getter J j)). CHR ''='' \<notin> set seg))
         \<and> (\<exists>ks. web_keys J (Some j) = Inr (Some ks)
                \<and> length ks = length (split CHR '';'' (getter J j))
                \<and> (\<forall>i < length ks. CHR ''='' \<notin> set (split CHR '';'' (getter J j) ! i)
                       \<longrightarrow> ks ! i = trim (split CHR '';'' (getter J j) ! i)))"
proof -
  let ?segs = "split CHR '';'' (getter J j)"
  let ?ks = "map (\<lambda>cookie. trim (takeWhile (\<lambda>c. c \<noteq> CHR ''='') cookie)) ?segs"
  have k: "web_keys J (Some j) = Inr (Some ?ks)"
    using assms by (rule web_keys_value)
  have whole: "?ks ! i = trim (?segs ! i)" if "i < length ?ks" "CHR ''='' \<notin> set (?segs ! i)" for i
  proof -
    from that(2) have tw: "takeWhile (\<lambda>c. c \<noteq> CHR ''='') (?segs ! i) = ?segs ! i"
      by (intro takeWhile_eq_all_conv [THEN iffD2]) auto
    from that(1) have "?ks ! i = trim (takeWhile (\<lambda>c. c \<noteq> CHR ''='') (?segs ! i))"
      by simp
    then show ?thesis by (simp only: tw)
  qed
  have "\<exists>ks. web_keys J (Some j) = Inr (Some ks) \<and> length ks = length ?segs
          \<and> (\<forall>i < length ks. CHR ''='' \<notin> set (?segs ! i) \<longrightarrow> ks ! i = trim (?segs ! i))"
    using k whole by (intro exI [of _ ?ks]) simp
  with web_values_TypeError [OF assms] show ?thesis by blast
qed

theorem values_throws_where_keys_returns_witness:
  "getter lineJar ''a=1; c '' \<noteq> []
   \<and> web_values lineJar (Some ''a=1; c '') = Inl TypeError
   \<and> web_keys lineJar (Some ''a=1; c '') = Inr (Some [''a'', ''c''])"
proof -
  have g: "getter lineJar ''a=1; c '' \<noteq> []" by (simp add: lineJar_def)
  have segs: "split CHR '';'' (getter lineJar ''a=1; c '') = [''a=1'', '' c '']" by code_simp
  have k: "web_keys lineJar (Some ''a=1; c '') = Inr (Some [''a'', ''c''])" by code_simp
  from values_throws_where_keys_returns [OF g]
  have "web_values lineJar (Some ''a=1; c '') = Inl TypeError \<longleftrightarrow>
          (\<exists>seg \<in> set (split CHR '';'' (getter lineJar ''a=1; c '')). CHR ''='' \<notin> set seg)"
    by blast
  then have "web_values lineJar (Some ''a=1; c '') = Inl TypeError"
    by (simp add: segs)
  with g k show ?thesis by simp
qed

end
